theory Spec2Isabelle
  imports Complex_Main "HOL-Library.Sublist"
begin

section \<open>Python values used by the two programs\<close>

subsection \<open>Text\<close>

text \<open>
  A Python \<open>str\<close> is modelled by its UTF-8 encoding, one \<open>char\<close> per byte. The
  pictographs that the sources put in front of their messages are therefore short byte
  sequences; every comparison made below is between whole messages or on ASCII digits, for
  which the encoding is injective.
\<close>

definition cross_mark :: string where
  "cross_mark = [CHR 0xE2, CHR 0x9D, CHR 0x8C]"

definition check_mark :: string where
  "check_mark = [CHR 0xE2, CHR 0x9C, CHR 0x85]"

definition degree_sign :: string where
  "degree_sign = [CHR 0xC2, CHR 0xB0]"

definition thermometer :: string where
  "thermometer = [CHR 0xF0, CHR 0x9F, CHR 0x8C, CHR 0xA1, CHR 0xEF, CHR 0xB8, CHR 0x8F]"

definition door_sign :: string where
  "door_sign = [CHR 0xF0, CHR 0x9F, CHR 0x9A, CHR 0xAA]"

definition clapper :: string where
  "clapper = [CHR 0xF0, CHR 0x9F, CHR 0x8E, CHR 0xAC]"

definition stop_sign :: string where
  "stop_sign = [CHR 0xF0, CHR 0x9F, CHR 0x9B, CHR 0x91]"

definition person_sign :: string where
  "person_sign = [CHR 0xF0, CHR 0x9F, CHR 0x91, CHR 0xA4]"

definition robot_sign :: string where
  "robot_sign = [CHR 0xF0, CHR 0x9F, CHR 0xA4, CHR 0x96]"

definition arrows_sign :: string where
  "arrows_sign = [CHR 0xF0, CHR 0x9F, CHR 0x94, CHR 0x84]"

definition newline :: string where
  "newline = [CHR 0x0A]"

definition quote :: string where
  "quote = [CHR 0x27]"

text \<open>\<open>sub in s\<close> on two strings.\<close>

fun contains :: "string \<Rightarrow> string \<Rightarrow> bool" where
  "contains sub [] = (sub = [])"
| "contains sub (c # cs) = (prefix sub (c # cs) \<or> contains sub cs)"

text \<open>\<open>sep.join(xs)\<close>.\<close>

fun join :: "string \<Rightarrow> string list \<Rightarrow> string" where
  "join sep [] = []"
| "join sep [x] = x"
| "join sep (x # y # ys) = x @ sep @ join sep (y # ys)"

text \<open>\<open>str(n)\<close> for a Python \<open>int\<close>, as an f-string prints it.\<close>

definition digit_char :: "nat \<Rightarrow> char" where
  "digit_char d = char_of (48 + d)"

fun str_nat :: "nat \<Rightarrow> string" where
  "str_nat n = (if n < 10 then [digit_char n] else str_nat (n div 10) @ [digit_char (n mod 10)])"

definition str_int :: "int \<Rightarrow> string" where
  "str_int i = (if i < 0 then CHR ''-'' # str_nat (nat (- i)) else str_nat (nat i))"

subsection \<open>Floating point\<close>

text \<open>
  A Python \<open>float\<close> is an IEEE 754 binary64 value: a rational with a 53-bit significand, an
  infinity or a NaN. The two zeros are identified (they compare equal and differ only in
  how they print). \<open>binary64\<close> rounds an exact rational to the nearest representable value,
  ties to the even significand, which is what every arithmetic operation and every
  conversion of a decimal literal does with its exact result.
\<close>

datatype pyfloat = Fin rat | PInf | NInf | NaN

fun bit_length :: "nat \<Rightarrow> nat" where
  "bit_length n = (if n = 0 then 0 else Suc (bit_length (n div 2)))"

definition pow2 :: "int \<Rightarrow> rat" where
  "pow2 e = (if 0 \<le> e then 2 ^ nat e else 1 / 2 ^ nat (- e))"

text \<open>The exponent of the leading bit: \<open>pow2 (ilog2 x) \<le> \<bar>x\<bar> < pow2 (ilog2 x + 1)\<close>
  for \<open>x \<noteq> 0\<close>.\<close>

definition ilog2 :: "rat \<Rightarrow> int" where
  "ilog2 x = (if 1 \<le> \<bar>x\<bar> then int (bit_length (nat \<lfloor>\<bar>x\<bar>\<rfloor>)) - 1
              else - int (bit_length (nat (- \<lfloor>- (1 / \<bar>x\<bar>)\<rfloor> - 1))))"

definition round_half_even :: "rat \<Rightarrow> int" where
  "round_half_even x =
     (let f = \<lfloor>x\<rfloor>; d = x - of_int f
      in if d < 1 / 2 then f else if 1 / 2 < d then f + 1 else if even f then f else f + 1)"

definition binary64 :: "rat \<Rightarrow> pyfloat" where
  "binary64 x =
     (if x = 0 then Fin 0
      else
        let e = max (ilog2 x) (- 1022);
            q = pow2 (e - 52);
            y = of_int (round_half_even (x / q)) * q
        in if 2 ^ 1024 \<le> \<bar>y\<bar> then (if 0 < x then PInf else NInf) else Fin y)"

fun fneg :: "pyfloat \<Rightarrow> pyfloat" where
  "fneg (Fin x) = Fin (- x)"
| "fneg PInf = NInf"
| "fneg NInf = PInf"
| "fneg NaN = NaN"

fun fadd :: "pyfloat \<Rightarrow> pyfloat \<Rightarrow> pyfloat" where
  "fadd (Fin x) (Fin y) = binary64 (x + y)"
| "fadd NaN _ = NaN"
| "fadd _ NaN = NaN"
| "fadd PInf NInf = NaN"
| "fadd NInf PInf = NaN"
| "fadd PInf _ = PInf"
| "fadd _ PInf = PInf"
| "fadd NInf _ = NInf"
| "fadd _ NInf = NInf"

definition fsub :: "pyfloat \<Rightarrow> pyfloat \<Rightarrow> pyfloat" where
  "fsub a b = fadd a (fneg b)"

fun fsign :: "pyfloat \<Rightarrow> rat" where
  "fsign (Fin x) = sgn x"
| "fsign PInf = 1"
| "fsign NInf = - 1"
| "fsign NaN = 0"

fun fmul :: "pyfloat \<Rightarrow> pyfloat \<Rightarrow> pyfloat" where
  "fmul (Fin x) (Fin y) = binary64 (x * y)"
| "fmul NaN _ = NaN"
| "fmul _ NaN = NaN"
| "fmul a b =
     (let sg = fsign a * fsign b
      in if sg = 0 then NaN else if 0 < sg then PInf else NInf)"

text \<open>\<open>a <= b\<close>: false as soon as one side is a NaN.\<close>

fun fle :: "pyfloat \<Rightarrow> pyfloat \<Rightarrow> bool" where
  "fle (Fin x) (Fin y) = (x \<le> y)"
| "fle NaN _ = False"
| "fle _ NaN = False"
| "fle NInf _ = True"
| "fle _ PInf = True"
| "fle PInf _ = False"
| "fle _ NInf = False"

text \<open>
  \<open>round(x, 1)\<close>: the exact value of \<open>x\<close> is rounded to one decimal place, ties to the
  even digit, and the decimal result is converted back to the nearest float. Infinities and
  NaN are returned as they are.
\<close>

fun py_round1 :: "pyfloat \<Rightarrow> pyfloat" where
  "py_round1 (Fin x) = binary64 (of_int (round_half_even (x * 10)) / 10)"
| "py_round1 a = a"

section \<open>The home automation server\<close>

subsection \<open>Device table and event log\<close>

record light_dev =
  light_name :: string
  light_type :: string
  light_state :: string
  brightness :: int

record thermostat_dev =
  thermostat_name :: string
  thermostat_type :: string
  temperature :: pyfloat
  target_temperature :: pyfloat

record lock_dev =
  lock_name :: string
  lock_type :: string
  lock_state :: string

record devices =
  living_room_light :: light_dev
  thermostat :: thermostat_dev
  front_door :: lock_dev

record event =
  timestamp :: string
  device :: string
  action :: string

record server =
  DEVICES :: devices
  EVENT_LOG :: "event list"

definition initial_devices :: devices where
  "initial_devices =
     \<lparr>living_room_light =
        \<lparr>light_name = ''Living Room Light'', light_type = ''light'',
         light_state = ''off'', brightness = 50\<rparr>,
      thermostat =
        \<lparr>thermostat_name = ''Home Thermostat'', thermostat_type = ''thermostat'',
         temperature = binary64 22, target_temperature = binary64 22\<rparr>,
      front_door =
        \<lparr>lock_name = ''Front Door Lock'', lock_type = ''lock'', lock_state = ''locked''\<rparr>\<rparr>"

definition initial_server :: server where
  "initial_server = \<lparr>DEVICES = initial_devices, EVENT_LOG = []\<rparr>"

text \<open>\<open>DEVICES.get(device_id, {}).get("name", device_id)\<close>: the table has exactly three
  keys, and every entry has a name.\<close>

definition device_name :: "devices \<Rightarrow> string \<Rightarrow> string" where
  "device_name d device_id =
     (if device_id = ''living_room_light'' then light_name (living_room_light d)
      else if device_id = ''thermostat'' then thermostat_name (thermostat d)
      else if device_id = ''front_door'' then lock_name (front_door d)
      else device_id)"

text \<open>The reading of the clock, \<open>datetime.now().strftime(...)\<close>, is the argument
  \<open>now\<close> of every operation that logs.\<close>

definition log_event :: "string \<Rightarrow> string \<Rightarrow> string \<Rightarrow> server \<Rightarrow> server" where
  "log_event now device_id act s =
     (let ev = \<lparr>timestamp = now, device = device_name (DEVICES s) device_id, action = act\<rparr>;
          lg = EVENT_LOG s @ [ev]
      in s\<lparr>EVENT_LOG := (if 10 < length lg then tl lg else lg)\<rparr>)"

text \<open>A run of \<open>log_event\<close> calls, each given as (clock reading, device id, action).\<close>

fun log_events :: "(string \<times> string \<times> string) list \<Rightarrow> server \<Rightarrow> server" where
  "log_events [] s = s"
| "log_events ((now, device_id, act) # es) s = log_events es (log_event now device_id act s)"

text \<open>The entry that one such call appends, and eleven calls for examples.\<close>

fun logged_entry :: "devices \<Rightarrow> string \<times> string \<times> string \<Rightarrow> event" where
  "logged_entry d (now, device_id, act) =
     \<lparr>timestamp = now, device = device_name d device_id, action = act\<rparr>"

definition eleven_events :: "(string \<times> string \<times> string) list" where
  "eleven_events =
     map (\<lambda>now. (now, ''front_door'', ''Door locked''))
       [''00'', ''01'', ''02'', ''03'', ''04'', ''05'', ''06'', ''07'', ''08'', ''09'', ''10'']"

subsection \<open>Tools\<close>

text \<open>The \<open>Literal[...]\<close> parameter types are enforced by the tool framework before a tool
  body runs, so each is a datatype with its string form.\<close>

datatype light_action = On | Off | Toggle

datatype lock_action = Lock | Unlock

datatype scene = Evening | Morning | Away

fun lock_action_str :: "lock_action \<Rightarrow> string" where
  "lock_action_str Lock = ''lock''"
| "lock_action_str Unlock = ''unlock''"

fun scene_str :: "scene \<Rightarrow> string" where
  "scene_str Evening = ''evening''"
| "scene_str Morning = ''morning''"
| "scene_str Away = ''away''"

definition set_light :: "light_dev \<Rightarrow> server \<Rightarrow> server" where
  "set_light dev s = s\<lparr>DEVICES := (DEVICES s)\<lparr>living_room_light := dev\<rparr>\<rparr>"

definition set_thermostat :: "thermostat_dev \<Rightarrow> server \<Rightarrow> server" where
  "set_thermostat dev s = s\<lparr>DEVICES := (DEVICES s)\<lparr>thermostat := dev\<rparr>\<rparr>"

definition set_lock :: "lock_dev \<Rightarrow> server \<Rightarrow> server" where
  "set_lock dev s = s\<lparr>DEVICES := (DEVICES s)\<lparr>front_door := dev\<rparr>\<rparr>"

text \<open>\<open>control_light\<close> after its brightness check: the action, the override for
  brightness 0, the log entry and the reply.\<close>

definition control_light_apply ::
  "string \<Rightarrow> light_action \<Rightarrow> int option \<Rightarrow> server \<Rightarrow> string \<times> server" where
  "control_light_apply now act b s =
     (let dev = living_room_light (DEVICES s);
          dev1 = (case act of
                    On \<Rightarrow> dev\<lparr>light_state := ''on''\<rparr>
                  | Off \<Rightarrow> dev\<lparr>light_state := ''off''\<rparr>
                  | Toggle \<Rightarrow>
                      dev\<lparr>light_state := (if light_state dev = ''off'' then ''on'' else ''off'')\<rparr>);
          dev2 = (if b = Some 0 then dev1\<lparr>light_state := ''off''\<rparr> else dev1);
          s1 = set_light dev2 s;
          s2 = log_event now ''living_room_light''
                 (''Light turned '' @ light_state dev2 @
                  (if light_state dev2 = ''on''
                   then '' at '' @ str_int (brightness dev2) @ ''%'' else '''')) s1
      in (check_mark @ '' Living Room Light is now '' @ light_state dev2 @
          (if light_state dev2 = ''on''
           then '' at '' @ str_int (brightness dev2) @ ''% brightness'' else ''''), s2))"

definition control_light ::
  "string \<Rightarrow> light_action \<Rightarrow> int option \<Rightarrow> server \<Rightarrow> string \<times> server" where
  "control_light now act b s =
     (case b of
        Some v \<Rightarrow>
          if 0 \<le> v \<and> v \<le> 100
          then control_light_apply now act b
                 (set_light ((living_room_light (DEVICES s))\<lparr>brightness := v\<rparr>) s)
          else (cross_mark @ '' Error: Brightness must be between 0 and 100'', s)
      | None \<Rightarrow> control_light_apply now act b s)"

text \<open>The f-strings of \<open>set_temperature\<close> print floats; how Python prints a float is
  the parameter \<open>repr\<close>.\<close>

definition set_temperature ::
  "(pyfloat \<Rightarrow> string) \<Rightarrow> string \<Rightarrow> pyfloat \<Rightarrow> server \<Rightarrow> string \<times> server" where
  "set_temperature repr now t s =
     (if \<not> (fle (Fin 16) t \<and> fle t (Fin 30))
      then (cross_mark @ '' Error: Temperature must be between 16'' @ degree_sign @
            ''C and 30'' @ degree_sign @ ''C'', s)
      else
        let dev = thermostat (DEVICES s);
            old_target = target_temperature dev;
            dev1 = dev\<lparr>target_temperature := t\<rparr>;
            temp_diff = fsub t (temperature dev1);
            dev2 = dev1\<lparr>temperature :=
                     py_round1 (fadd (temperature dev1) (fmul temp_diff (binary64 (2 / 10))))\<rparr>;
            s1 = set_thermostat dev2 s;
            s2 = log_event now ''thermostat''
                   (''Temperature set to '' @ repr t @ degree_sign @ ''C'') s1
        in (thermometer @ '' Thermostat set to '' @ repr t @ degree_sign @ ''C (was '' @
            repr old_target @ degree_sign @ ''C)'' @ newline @ ''Current temperature: '' @
            repr (temperature dev2) @ degree_sign @ ''C'', s2))"

definition control_door_lock :: "string \<Rightarrow> lock_action \<Rightarrow> server \<Rightarrow> string \<times> server" where
  "control_door_lock now act s =
     (let dev = front_door (DEVICES s);
          dev1 = (case act of
                    Lock \<Rightarrow> dev\<lparr>lock_state := ''locked''\<rparr>
                  | Unlock \<Rightarrow> dev\<lparr>lock_state := ''unlocked''\<rparr>);
          s1 = set_lock dev1 s;
          s2 = log_event now ''front_door'' (''Door '' @ lock_action_str act @ ''ed'') s1
      in (door_sign @ '' Front door is now '' @ lock_state dev1, s2))"

text \<open>The device writes of one scene, with the lines it reports.\<close>

fun scene_effect :: "scene \<Rightarrow> devices \<Rightarrow> devices \<times> string list" where
  "scene_effect Evening d =
     (d\<lparr>living_room_light := (living_room_light d)\<lparr>light_state := ''on'', brightness := 70\<rparr>,
        thermostat := (thermostat d)\<lparr>target_temperature := binary64 19\<rparr>,
        front_door := (front_door d)\<lparr>lock_state := ''locked''\<rparr>\<rparr>,
      [''Living room light on at 70%'', ''Temperature set to 19'' @ degree_sign @ ''C'',
       ''Front door locked''])"
| "scene_effect Morning d =
     (d\<lparr>living_room_light := (living_room_light d)\<lparr>light_state := ''on'', brightness := 90\<rparr>,
        thermostat := (thermostat d)\<lparr>target_temperature := binary64 23\<rparr>,
        front_door := (front_door d)\<lparr>lock_state := ''unlocked''\<rparr>\<rparr>,
      [''Living room light on at 90%'', ''Temperature set to 23'' @ degree_sign @ ''C'',
       ''Front door unlocked''])"
| "scene_effect Away d =
     (d\<lparr>living_room_light := (living_room_light d)\<lparr>light_state := ''off''\<rparr>,
        thermostat := (thermostat d)\<lparr>target_temperature := binary64 15\<rparr>,
        front_door := (front_door d)\<lparr>lock_state := ''locked''\<rparr>\<rparr>,
      [''Light turned off'', ''Temperature lowered to 15'' @ degree_sign @ ''C'',
       ''Front door locked''])"

definition activate_scene :: "string \<Rightarrow> scene \<Rightarrow> server \<Rightarrow> string \<times> server" where
  "activate_scene now sc s =
     (let (d, actions) = scene_effect sc (DEVICES s);
          s1 = s\<lparr>DEVICES := d\<rparr>;
          s2 = log_event now ''scene_control''
                 (''Scene '' @ quote @ scene_str sc @ quote @ '' activated'') s1
      in (clapper @ '' Scene '' @ quote @ scene_str sc @ quote @ '' activated!'' @ newline @
          check_mark @ '' '' @ join (newline @ check_mark @ '' '') actions, s2))"

text \<open>A tool call as the server receives it, and a run of calls.\<close>

datatype tool_call =
    ControlLight light_action "int option"
  | SetTemperature pyfloat
  | ControlDoorLock lock_action
  | ActivateScene scene

fun call_tool :: "(pyfloat \<Rightarrow> string) \<Rightarrow> string \<Rightarrow> tool_call \<Rightarrow> server \<Rightarrow> string \<times> server" where
  "call_tool repr now (ControlLight act b) s = control_light now act b s"
| "call_tool repr now (SetTemperature t) s = set_temperature repr now t s"
| "call_tool repr now (ControlDoorLock act) s = control_door_lock now act s"
| "call_tool repr now (ActivateScene sc) s = activate_scene now sc s"

text \<open>A reply is error-shaped when it starts with the cross mark and the word Error.\<close>

definition error_shaped :: "string \<Rightarrow> bool" where
  "error_shaped r = prefix (cross_mark @ '' Error'') r"

text \<open>The arguments a tool rejects: a brightness outside 0..100, a temperature outside
  16..30 (a NaN included).\<close>

fun out_of_domain :: "tool_call \<Rightarrow> bool" where
  "out_of_domain (ControlLight act (Some v)) = (\<not> (0 \<le> v \<and> v \<le> 100))"
| "out_of_domain (SetTemperature t) = (\<not> (fle (Fin 16) t \<and> fle t (Fin 30)))"
| "out_of_domain _ = False"

section \<open>The chat client\<close>

subsection \<open>Globals and the operating system around them\<close>

text \<open>
  An \<open>Agent\<close> as far as the client configures it: name, instructions and the list of
  capability servers bound to it (the model handle carries no state of its own). A server
  object and a child process are identified by a handle, a number never used before.
\<close>

record agent_obj =
  agent_name :: string
  instructions :: string
  mcp_servers :: "nat list"

type_synonym item = "(string \<times> string) list"

record run_result =
  to_input_list :: "item list"
  final_output :: string

datatype agent_input = Text string | Items "item list"

record chat_message =
  role :: string
  content :: string
  avatar :: string

text \<open>
  The first six fields are the module globals. The last three are the world the client
  acts on: the children spawned by \<open>subprocess.Popen\<close> that have not exited, the
  \<open>MCPServerStdio\<close> contexts entered and not yet left, and the next fresh handle. A child
  leaves \<open>live_processes\<close> when it exits during the start-up grace period or when it is
  stopped; \<open>server_process.poll() is None\<close> is membership in that list. Entering an
  \<open>MCPServerStdio\<close> context launches a server child of its own, with the same command
  and script, which runs until the context is left: every handle in \<open>open_sessions\<close> stands
  for the session and for that child.
\<close>

record client =
  agent :: "agent_obj option"
  mcp_server :: "nat option"
  server_process :: "nat option"
  current_thread_id :: "string option"
  previous_result :: "run_result option"
  aoai_client :: bool
  live_processes :: "nat list"
  open_sessions :: "nat list"
  next_handle :: nat

definition initial_client :: client where
  "initial_client =
     \<lparr>agent = None, mcp_server = None, server_process = None, current_thread_id = None,
      previous_result = None, aoai_client = False, live_processes = [], open_sessions = [],
      next_handle = 0\<rparr>"

text \<open>
  What the calls outside the program do during one operation. A field \<open>\<dots>_raises\<close> is
  \<open>Some msg\<close> when that call raises an \<open>Exception\<close> whose text is \<open>msg\<close>.
  \<open>exits_during_grace\<close> is \<open>Some err\<close> when the new child has exited by the time it is
  polled after the two-second sleep, \<open>err\<close> being what its error stream holds.
  On either platform the stop request (\<open>terminate\<close> or \<open>send_signal(SIGTERM)\<close>) is one call,
  \<open>signal_raises\<close>. A server context whose \<open>__aenter__\<close> raises is taken to leave no child
  behind.
\<close>

record env =
  file_exists :: bool
  popen_raises :: "string option"
  exits_during_grace :: "string option"
  aenter_raises :: "string option"
  aexit_raises :: "string option"
  signal_raises :: "string option"
  wait_times_out :: bool
  kill_raises :: "string option"
  client_raises :: "string option"
  agent_raises :: "string option"

definition MCP_SERVER_FILE :: string where
  "MCP_SERVER_FILE = ''./MCPServer_HomeAutomation.py''"

definition instructions_with_tools :: string where
  "instructions_with_tools =
     ''Use the tools to answer the questions. Maintain context from previous messages in the conversation. You now have access to home automation tools - help users control their smart home devices.''"

definition instructions_without_tools :: string where
  "instructions_without_tools =
     ''You are a helpful AI agent. You currently don'' @ quote @
     ''t have access to any tools or external systems. Explain to users that they need to start the MCP server to access home automation capabilities.''"

subsection \<open>Agent binding\<close>

text \<open>\<open>create_agent(mcp_servers=None)\<close>; the first component is the exception raised,
  if any.\<close>

definition create_agent :: "env \<Rightarrow> nat list option \<Rightarrow> client \<Rightarrow> string option \<times> client" where
  "create_agent e servers s =
     (if \<not> aoai_client s \<and> client_raises e \<noteq> None then (client_raises e, s)
      else
        let s1 = s\<lparr>aoai_client := True\<rparr>
        in case agent_raises e of
             Some msg \<Rightarrow> (Some msg, s1)
           | None \<Rightarrow>
               (None,
                s1\<lparr>agent := Some
                  \<lparr>agent_name = ''Home Assistant'',
                   instructions =
                     (if servers \<noteq> None \<and> servers \<noteq> Some []
                      then instructions_with_tools else instructions_without_tools),
                   mcp_servers = (case servers of Some l \<Rightarrow> l | None \<Rightarrow> [])\<rparr>\<rparr>))"

definition initialise_llm :: "env \<Rightarrow> client \<Rightarrow> string \<times> client" where
  "initialise_llm e s =
     (case create_agent e None s of
        (None, s1) \<Rightarrow>
          (check_mark @ '' AI Agent initialised successfully! (No MCP tools available yet)'', s1)
      | (Some msg, s1) \<Rightarrow> (cross_mark @ '' Error initialising LLM: '' @ msg, s1))"

subsection \<open>Starting and stopping the capability server\<close>

definition start_error :: "string \<Rightarrow> string" where
  "start_error msg = cross_mark @ '' Error starting MCP server: '' @ msg"

definition stop_error :: "string \<Rightarrow> string" where
  "stop_error msg = cross_mark @ '' Error stopping server: '' @ msg"

text \<open>A start that succeeds launches the server script twice: \<open>Popen\<close> gives the child
  \<open>p\<close>, which joins \<open>live_processes\<close>, and \<open>__aenter__\<close> on the new server object \<open>m\<close>
  launches the session's child, which joins \<open>open_sessions\<close>.\<close>

definition start_mcp_server :: "env \<Rightarrow> client \<Rightarrow> string \<times> client" where
  "start_mcp_server e s =
     (if \<not> file_exists e
      then (cross_mark @ '' MCP server file not found: '' @ MCP_SERVER_FILE, s)
      else
        case popen_raises e of
          Some msg \<Rightarrow> (start_error msg, s)
        | None \<Rightarrow>
            let p = next_handle s;
                s1 = s\<lparr>server_process := Some p, live_processes := live_processes s @ [p],
                       next_handle := Suc p\<rparr>
            in case exits_during_grace e of
                 Some err \<Rightarrow>
                   (cross_mark @ '' Server failed to start: '' @ err,
                    s1\<lparr>live_processes := removeAll p (live_processes s1)\<rparr>)
               | None \<Rightarrow>
                   let m = next_handle s1;
                       s2 = s1\<lparr>mcp_server := Some m, next_handle := Suc m\<rparr>
                   in case aenter_raises e of
                        Some msg \<Rightarrow> (start_error msg, s2)
                      | None \<Rightarrow>
                          let s3 = s2\<lparr>open_sessions := open_sessions s2 @ [m]\<rparr>
                          in case create_agent e (Some [m]) s3 of
                               (Some msg, s4) \<Rightarrow> (start_error msg, s4)
                             | (None, s4) \<Rightarrow>
                                 (check_mark @
                                  '' MCP Server started! AI Agent now has access to home automation tools.'',
                                  s4))"

text \<open>The two guarded steps of \<open>stop_mcp_server\<close>. \<open>Inl (msg, s)\<close> is an exception with
  text \<open>msg\<close> raised in state \<open>s\<close>.\<close>

definition close_session :: "env \<Rightarrow> client \<Rightarrow> string \<times> client + client" where
  "close_session e s =
     (case mcp_server s of
        None \<Rightarrow> Inr s
      | Some m \<Rightarrow>
          (case aexit_raises e of
             Some msg \<Rightarrow> Inl (msg, s)
           | None \<Rightarrow> Inr (s\<lparr>mcp_server := None, open_sessions := removeAll m (open_sessions s)\<rparr>)))"

definition stop_process :: "env \<Rightarrow> client \<Rightarrow> string \<times> client + client" where
  "stop_process e s =
     (case server_process s of
        None \<Rightarrow> Inr s
      | Some p \<Rightarrow>
          if p \<in> set (live_processes s)
          then
            (case signal_raises e of
               Some msg \<Rightarrow> Inl (msg, s)
             | None \<Rightarrow>
                 if wait_times_out e
                 then
                   (case kill_raises e of
                      Some msg \<Rightarrow> Inl (msg, s)
                    | None \<Rightarrow> Inr (s\<lparr>live_processes := removeAll p (live_processes s)\<rparr>))
                 else Inr (s\<lparr>live_processes := removeAll p (live_processes s)\<rparr>))
          else Inr s)"

definition stop_mcp_server :: "env \<Rightarrow> client \<Rightarrow> string \<times> client" where
  "stop_mcp_server e s =
     (case close_session e s of
        Inl (msg, s1) \<Rightarrow> (stop_error msg, s1)
      | Inr s1 \<Rightarrow>
          (case stop_process e s1 of
             Inl (msg, s2) \<Rightarrow> (stop_error msg, s2)
           | Inr s2 \<Rightarrow>
               (case create_agent e None (s2\<lparr>server_process := None\<rparr>) of
                  (Some msg, s3) \<Rightarrow> (stop_error msg, s3)
                | (None, s3) \<Rightarrow>
                    (stop_sign @
                     '' MCP Server stopped. AI Agent now works without tools (general assistance only).'',
                     s3))))"

text \<open>A sequence of presses of the two server buttons, each with what the outside world
  does during it.\<close>

datatype lifecycle_op = Start env | Stop env

fun lifecycle :: "lifecycle_op list \<Rightarrow> client \<Rightarrow> client" where
  "lifecycle [] s = s"
| "lifecycle (Start e # ops) s = lifecycle ops (snd (start_mcp_server e s))"
| "lifecycle (Stop e # ops) s = lifecycle ops (snd (stop_mcp_server e s))"

fun is_start :: "lifecycle_op \<Rightarrow> bool" where
  "is_start (Start e) = True"
| "is_start (Stop e) = False"

text \<open>An outside world in which nothing fails, and one in which only leaving the server
  context fails.\<close>

definition calm :: env where
  "calm =
     \<lparr>file_exists = True, popen_raises = None, exits_during_grace = None, aenter_raises = None,
      aexit_raises = None, signal_raises = None, wait_times_out = False, kill_raises = None,
      client_raises = None, agent_raises = None\<rparr>"

definition broken_exit :: env where
  "broken_exit = calm\<lparr>aexit_raises := Some ''connection closed''\<rparr>"

definition start_succeeds :: "env \<Rightarrow> bool" where
  "start_succeeds e =
     (file_exists e \<and> popen_raises e = None \<and> exits_during_grace e = None \<and>
      aenter_raises e = None \<and> client_raises e = None \<and> agent_raises e = None)"

definition stop_raises_nothing :: "env \<Rightarrow> bool" where
  "stop_raises_nothing e =
     (aexit_raises e = None \<and> signal_raises e = None \<and> kill_raises e = None \<and>
      client_raises e = None \<and> agent_raises e = None)"

subsection \<open>Conversation turns\<close>

definition user_message :: "string \<Rightarrow> chat_message" where
  "user_message txt = \<lparr>role = ''user'', content = txt, avatar = person_sign\<rparr>"

definition assistant_message :: "string \<Rightarrow> chat_message" where
  "assistant_message txt = \<lparr>role = ''assistant'', content = txt, avatar = robot_sign\<rparr>"

text \<open>What \<open>process_user_input\<close> hands to \<open>Runner.run\<close> as \<open>input\<close>.\<close>

definition turn_input :: "client \<Rightarrow> string \<Rightarrow> agent_input" where
  "turn_input s user_input =
     (case previous_result s of
        Some r \<Rightarrow> Items (to_input_list r @ [[(''role'', ''user''), (''content'', user_input)]])
      | None \<Rightarrow> Text user_input)"

text \<open>
  \<open>run\<close> is \<open>Runner.run\<close>: given the agent and the input it returns a result or raises
  (\<open>Inl\<close>), and an exception of the runner leaves \<open>process_user_input\<close> uncaught. \<open>new_id\<close>
  is what \<open>gen_trace_id()\<close> returns if it is called.
\<close>

definition process_user_input ::
  "(agent_obj \<Rightarrow> agent_input \<Rightarrow> string + run_result) \<Rightarrow> string \<Rightarrow> string \<Rightarrow>
   chat_message list \<Rightarrow> client \<Rightarrow> (string + chat_message list \<times> string) \<times> client" where
  "process_user_input run new_id user_input history s =
     (case agent s of
        None \<Rightarrow>
          (Inr (history @
                [user_message user_input,
                 assistant_message ''LLM not initialised. Please restart the application.''],
                []), s)
      | Some a \<Rightarrow>
          let s1 = (if previous_result s = None then s\<lparr>current_thread_id := Some new_id\<rparr> else s)
          in case run a (turn_input s1 user_input) of
               Inl msg \<Rightarrow> (Inl msg, s1)
             | Inr result \<Rightarrow>
                 (Inr (history @
                       [user_message user_input, assistant_message (final_output result)],
                       []),
                  s1\<lparr>previous_result := Some result\<rparr>))"

definition reset_conversation :: "string \<Rightarrow> client \<Rightarrow> (chat_message list \<times> string) \<times> client" where
  "reset_conversation new_id s =
     (([], arrows_sign @ '' Conversation reset successfully!''),
      s\<lparr>previous_result := None, current_thread_id := Some new_id\<rparr>)"

text \<open>A runner for examples: it answers with a fixed text and remembers, as its
  continuation, everything it was given.\<close>

definition echo_runner :: "agent_obj \<Rightarrow> agent_input \<Rightarrow> string + run_result" where
  "echo_runner a inp =
     Inr \<lparr>to_input_list =
            (case inp of
               Text txt \<Rightarrow> [[(''role'', ''user''), (''content'', txt)]]
             | Items xs \<Rightarrow> xs) @ [[(''role'', ''assistant''), (''content'', ''ok'')]],
          final_output = ''ok''\<rparr>"

subsection \<open>States and predicates used in the statements\<close>

text \<open>The client once the page has loaded (\<open>initialise_llm\<close> has run), and once the server
  has then been started, the outside world being calm.\<close>

definition idle_client :: client where
  "idle_client = snd (initialise_llm calm initial_client)"

definition started_client :: client where
  "started_client = snd (start_mcp_server calm idle_client)"

text \<open>The handle state is cleared and the agent is bound with no capability server.\<close>

definition handle_cleared :: "client \<Rightarrow> bool" where
  "handle_cleared s =
     (mcp_server s = None \<and> server_process s = None \<and>
      map_option mcp_servers (agent s) = Some [])"

text \<open>Every live child has a handle below the next fresh one.\<close>

definition handles_fresh :: "client \<Rightarrow> bool" where
  "handles_fresh s = list_all (\<lambda>p. p < next_handle s) (live_processes s)"

text \<open>All live child processes of the client: the \<open>Popen\<close> children that have not exited and
  the child of every open session.\<close>

definition live_children :: "client \<Rightarrow> nat list" where
  "live_children s = live_processes s @ open_sessions s"

text \<open>The client after one turn with the example runner.\<close>

definition talked_client :: client where
  "talked_client =
     snd (process_user_input echo_runner ''trace-1'' ''unlock the door'' [] idle_client)"

section \<open>The float model\<close>

declare bit_length.simps [simp del]

lemma bit_length_0 [simp]: "bit_length 0 = 0"
  by (simp add: bit_length.simps)

text \<open>\<open>bit_length n\<close> is the number of binary digits of \<open>n\<close>, so \<open>ilog2\<close> brackets its
  argument between two consecutive powers of two.\<close>

lemma bit_length_bounds: "0 < n \<Longrightarrow> 2 ^ (bit_length n - 1) \<le> n \<and> n < 2 ^ bit_length n"
proof (induction n rule: bit_length.induct)
  case (1 n)
  show ?case
  proof (cases "n div 2 = 0")
    case True
    with "1.prems" have "n = Suc 0" by (simp add: div_eq_0_iff)
    then show ?thesis by (simp add: bit_length.simps [of "Suc 0"])
  next
    case False
    then have pos: "0 < n div 2" by simp
    from "1.IH" [OF _ pos] "1.prems"
    have ih: "2 ^ (bit_length (n div 2) - 1) \<le> n div 2" "n div 2 < 2 ^ bit_length (n div 2)"
      by simp_all
    have bl: "bit_length n = Suc (bit_length (n div 2))"
      using "1.prems" by (subst bit_length.simps) simp
    have "0 < bit_length (n div 2)"
      using pos by (subst bit_length.simps) simp
    then obtain k where k: "bit_length (n div 2) = Suc k" by (cases "bit_length (n div 2)") auto
    have d: "2 * (n div 2) \<le> n" "n < 2 * (n div 2) + 2" by presburger+
    have "2 * 2 ^ k \<le> n" using ih(1) k d(1) by simp
    moreover have "n < 2 * 2 ^ Suc k" using ih(2) k d(2) by simp
    ultimately show ?thesis using bl k by simp
  qed
qed

lemma ilog2_bracket:
  assumes "x \<noteq> 0"
  shows "pow2 (ilog2 x) \<le> \<bar>x\<bar> \<and> \<bar>x\<bar> < pow2 (ilog2 x + 1)"
proof (cases "1 \<le> \<bar>x\<bar>")
  case True
  define n where "n = nat \<lfloor>\<bar>x\<bar>\<rfloor>"
  have fl: "1 \<le> \<lfloor>\<bar>x\<bar>\<rfloor>" using True by simp
  then have n: "0 < n" "of_nat n = (of_int \<lfloor>\<bar>x\<bar>\<rfloor> :: rat)" by (simp_all add: n_def)
  from bit_length_bounds [OF n(1)]
  have b: "2 ^ (bit_length n - 1) \<le> n" "n < 2 ^ bit_length n" by simp_all
  have pos: "0 < bit_length n" using n(1) by (subst bit_length.simps) simp
  have il: "ilog2 x = int (bit_length n) - 1" using True by (simp add: ilog2_def n_def)
  have lo: "(2::rat) ^ (bit_length n - 1) \<le> \<bar>x\<bar>"
  proof -
    have "(2::rat) ^ (bit_length n - 1) \<le> of_nat n"
      using b(1) by (metis of_nat_le_iff of_nat_numeral of_nat_power)
    also have "\<dots> \<le> \<bar>x\<bar>" unfolding n(2) by simp
    finally show ?thesis .
  qed
  have hi: "\<bar>x\<bar> < (2::rat) ^ bit_length n"
  proof -
    have "\<bar>x\<bar> < of_int \<lfloor>\<bar>x\<bar>\<rfloor> + 1" by linarith
    also have "\<dots> = of_nat (Suc n)" using n(2) by simp
    also have "\<dots> \<le> of_nat (2 ^ bit_length n)" using b(2) by (simp only: of_nat_le_iff Suc_le_eq)
    finally show ?thesis by simp
  qed
  from pos have "nat (int (bit_length n) - 1) = bit_length n - 1" by simp
  with lo hi pos show ?thesis by (simp add: il pow2_def)
next
  case False
  define y where "y = 1 / \<bar>x\<bar>"
  have x: "0 < \<bar>x\<bar>" "\<bar>x\<bar> < 1" using assms False by simp_all
  then have y: "1 < y" by (simp add: y_def)
  define c where "c = - \<lfloor>- y\<rfloor>"
  have c: "y \<le> of_int c" "of_int c - 1 < y" unfolding c_def by linarith+
  with y have c2: "2 \<le> c" by linarith
  define m where "m = nat (c - 1)"
  have m: "0 < m" "int m = c - 1" using c2 by (simp_all add: m_def)
  from bit_length_bounds [OF m(1)]
  have b: "2 ^ (bit_length m - 1) \<le> m" "m < 2 ^ bit_length m" by simp_all
  have pos: "0 < bit_length m" using m(1) by (subst bit_length.simps) simp
  have il: "ilog2 x = - int (bit_length m)"
    using False by (simp add: ilog2_def m_def c_def y_def)
  have yhi: "y \<le> (2::rat) ^ bit_length m"
  proof -
    have "int m < int (2 ^ bit_length m)" using b(2) by (simp only: of_nat_less_iff)
    then have "c \<le> 2 ^ bit_length m" using m(2) by simp
    then have "(of_int c :: rat) \<le> of_int (2 ^ bit_length m)" by (simp only: of_int_le_iff)
    also have "\<dots> = 2 ^ bit_length m" by simp
    finally have "(of_int c :: rat) \<le> 2 ^ bit_length m" .
    with c(1) show ?thesis by (rule order_trans)
  qed
  have ylo: "(2::rat) ^ (bit_length m - 1) < y"
  proof -
    have "int (2 ^ (bit_length m - 1)) \<le> int m" using b(1) by (simp only: of_nat_le_iff)
    then have "(2::int) ^ (bit_length m - 1) \<le> c - 1" using m(2) by simp
    then have h: "(of_int (2 ^ (bit_length m - 1)) :: rat) \<le> of_int (c - 1)"
      by (simp only: of_int_le_iff)
    have e: "(of_int (2 ^ (bit_length m - 1)) :: rat) = 2 ^ (bit_length m - 1)" by simp
    have f: "(of_int (c - 1) :: rat) = of_int c - 1" by simp
    from h [unfolded e f] c(2) show ?thesis by (rule le_less_trans)
  qed
  have lo: "1 / (2::rat) ^ bit_length m \<le> \<bar>x\<bar>"
    using yhi x(1) by (simp add: y_def field_simps)
  have hi: "\<bar>x\<bar> < 1 / (2::rat) ^ (bit_length m - 1)"
    using ylo x(1) by (simp add: y_def field_simps)
  have p1: "pow2 (- int (bit_length m)) = 1 / 2 ^ bit_length m"
    using pos by (simp add: pow2_def)
  have p2: "pow2 (1 - int (bit_length m)) = 1 / 2 ^ (bit_length m - 1)"
  proof (cases "bit_length m = 1")
    case True
    then show ?thesis by (simp add: pow2_def)
  next
    case False
    with pos have "1 < bit_length m" by simp
    then have "nat (int (bit_length m) - 1) = bit_length m - 1" by simp
    with \<open>1 < bit_length m\<close> show ?thesis by (simp add: pow2_def)
  qed
  show ?thesis using lo hi by (simp add: il p1 p2)
qed

lemma round_half_even_nearest: "\<bar>of_int (round_half_even z) - z\<bar> \<le> 1 / 2"
proof -
  define f where "f = \<lfloor>z\<rfloor>"
  have "of_int f \<le> z" "z < of_int f + 1" unfolding f_def by linarith+
  then show ?thesis
    unfolding round_half_even_def Let_def f_def [symmetric] by (auto simp: abs_if)
qed

lemma pow2_pos: "0 < pow2 e"
  by (simp add: pow2_def)

text \<open>A finite result of \<open>binary64\<close> is a multiple of the quantum of its binade and lies
  within half a quantum of the exact value.\<close>

lemma binary64_nearest:
  assumes "x \<noteq> 0" and "binary64 x = Fin y"
  shows "\<bar>y - x\<bar> \<le> pow2 (max (ilog2 x) (- 1022) - 52) / 2"
    and "\<exists>k. y = of_int k * pow2 (max (ilog2 x) (- 1022) - 52)"
proof -
  let ?q = "pow2 (max (ilog2 x) (- 1022) - 52)"
  have q: "0 < ?q" by (rule pow2_pos)
  from assms have y: "y = of_int (round_half_even (x / ?q)) * ?q"
    by (simp add: binary64_def Let_def split: if_splits)
  then show "\<exists>k. y = of_int k * ?q" by blast
  have "y - x = (of_int (round_half_even (x / ?q)) - x / ?q) * ?q"
    using q by (simp add: y left_diff_distrib)
  then have "\<bar>y - x\<bar> = \<bar>of_int (round_half_even (x / ?q)) - x / ?q\<bar> * ?q"
    using q by (simp only: abs_mult abs_of_pos)
  also have "\<dots> \<le> 1 / 2 * ?q"
    using round_half_even_nearest [of "x / ?q"] q by (intro mult_right_mono) simp_all
  finally show "\<bar>y - x\<bar> \<le> ?q / 2" by simp
qed

subsection \<open>Evaluation on numerals\<close>

lemma bit_length_even: "0 < n \<Longrightarrow> bit_length (2 * n) = Suc (bit_length n)"
  by (subst bit_length.simps) simp

lemma bit_length_odd: "bit_length (2 * n + 1) = Suc (bit_length n)"
  by (subst bit_length.simps) simp

lemma bit_length_Suc_0 [simp]: "bit_length (Suc 0) = Suc 0"
  using bit_length_odd [of 0] by simp

lemma bit_length_One [simp]: "bit_length 1 = Suc 0"
  using bit_length_Suc_0 by simp

lemma bit_length_Bit0 [simp]: "bit_length (numeral (Num.Bit0 k)) = Suc (bit_length (numeral k))"
  using bit_length_even [of "numeral k"] by (simp add: numeral_Bit0 mult_2)

lemma bit_length_Bit1 [simp]: "bit_length (numeral (Num.Bit1 k)) = Suc (bit_length (numeral k))"
  using bit_length_odd [of "numeral k"] by (simp add: numeral_Bit1 mult_2)

lemma floor_rat_numeral_div [simp]:
  "\<lfloor>numeral a / numeral b :: rat\<rfloor> = numeral a div numeral b"
  using floor_divide_of_int_eq [of "numeral a" "numeral b", where ?'a = rat] by simp

lemma floor_rat_neg_numeral_div [simp]:
  "\<lfloor>- (numeral a / numeral b) :: rat\<rfloor> = - numeral a div numeral b"
  using floor_divide_of_int_eq [of "- numeral a" "numeral b", where ?'a = rat] by simp

lemma floor_rat_one_div [simp]:
  "\<lfloor>1 / numeral b :: rat\<rfloor> = 1 div numeral b"
  using floor_divide_of_int_eq [of 1 "numeral b", where ?'a = rat] by simp

lemma floor_rat_neg_one_div [simp]:
  "\<lfloor>- (1 / numeral b) :: rat\<rfloor> = - 1 div numeral b"
  using floor_divide_of_int_eq [of "- 1" "numeral b", where ?'a = rat] by simp

lemmas float_eval = binary64_def ilog2_def pow2_def round_half_even_def Let_def

lemma binary64_15: "binary64 15 = Fin 15"
  by (simp add: float_eval)

lemma binary64_22: "binary64 22 = Fin 22"
  by (simp add: float_eval)

lemma binary64_two_tenths: "binary64 (2 / 10) = Fin (3602879701896397 / 18014398509481984)"
  by (simp add: float_eval)

lemma binary64_fifth: "binary64 (1 / 5) = Fin (3602879701896397 / 18014398509481984)"
  using binary64_two_tenths by simp

lemma binary64_22_6: "binary64 (226 / 10) = Fin (3180667236830413 / 140737488355328)"
  by (simp add: float_eval)

text \<open>The four float operations of \<open>set_temperature\<close> on target 25 and reading 22.\<close>

lemma diff_25_22: "fsub (Fin 25) (Fin 22) = Fin 3"
  by (simp add: fsub_def float_eval)

lemma scaled_diff_25_22:
  "fmul (Fin 3) (Fin (3602879701896397 / 18014398509481984)) =
   Fin (1351079888211149 / 2251799813685248)"
  by (simp add: float_eval)

lemma moved_25_22:
  "fadd (Fin 22) (Fin (1351079888211149 / 2251799813685248)) =
   Fin (3180667236830413 / 140737488355328)"
  by (simp add: float_eval)

lemma rounded_25_22:
  "py_round1 (Fin (3180667236830413 / 140737488355328)) =
   Fin (3180667236830413 / 140737488355328)"
  by (simp add: float_eval)


section \<open>The event log\<close>

lemma log_event_DEVICES [simp]: "DEVICES (log_event now device_id act s) = DEVICES s"
  by (simp add: log_event_def Let_def)

lemma log_event_EVENT_LOG:
  "EVENT_LOG (log_event now device_id act s) =
   (let lg = EVENT_LOG s @
               [\<lparr>timestamp = now, device = device_name (DEVICES s) device_id, action = act\<rparr>]
    in if 10 < length lg then tl lg else lg)"
  by (simp add: log_event_def Let_def)

lemma log_events_DEVICES [simp]: "DEVICES (log_events es s) = DEVICES s"
  by (induction es s rule: log_events.induct) simp_all

lemma log_events_window:
  "length (EVENT_LOG s) \<le> 10 \<Longrightarrow>
   EVENT_LOG (log_events es s) =
   drop (length (EVENT_LOG s) + length es - 10)
     (EVENT_LOG s @ map (logged_entry (DEVICES s)) es)"
proof (induction es s rule: log_events.induct)
  case (1 s)
  then show ?case by simp
next
  case (2 now device_id act es s)
  let ?ev = "\<lparr>timestamp = now, device = device_name (DEVICES s) device_id, action = act\<rparr>"
  let ?s1 = "log_event now device_id act s"
  have len: "length (EVENT_LOG ?s1) \<le> 10"
    using "2.prems" by (simp add: log_event_EVENT_LOG Let_def)
  show ?case
  proof (cases "length (EVENT_LOG s) = 10")
    case True
    then have lg: "EVENT_LOG ?s1 = tl (EVENT_LOG s) @ [?ev]"
      by (cases "EVENT_LOG s") (simp_all add: log_event_EVENT_LOG Let_def)
    have "EVENT_LOG s \<noteq> []" using True by auto
    then have dr: "drop (Suc n) (EVENT_LOG s @ ys) = drop n (tl (EVENT_LOG s) @ ys)" for n ys
      by (cases "EVENT_LOG s") simp_all
    show ?thesis
      using "2.IH" [OF len] True lg dr by (simp add: Suc_diff_le)
  next
    case False
    then have lg: "EVENT_LOG ?s1 = EVENT_LOG s @ [?ev]"
      using "2.prems" by (simp add: log_event_EVENT_LOG Let_def)
    show ?thesis
      using "2.IH" [OF len] lg by simp
  qed
qed


section \<open>Properties of the server tools\<close>

lemma set_temperature_rejected:
  "\<not> (fle (Fin 16) t \<and> fle t (Fin 30)) \<Longrightarrow>
   set_temperature repr now t s =
   (cross_mark @ '' Error: Temperature must be between 16'' @ degree_sign @ ''C and 30'' @
    degree_sign @ ''C'', s)"
  by (simp add: set_temperature_def)

lemma set_temperature_accepted:
  "fle (Fin 16) t \<Longrightarrow> fle t (Fin 30) \<Longrightarrow>
   DEVICES (snd (set_temperature repr now t s)) =
   (DEVICES s)\<lparr>thermostat := (thermostat (DEVICES s))
      \<lparr>target_temperature := t,
       temperature :=
         py_round1 (fadd (temperature (thermostat (DEVICES s)))
           (fmul (fsub t (temperature (thermostat (DEVICES s)))) (binary64 (2 / 10))))\<rparr>\<rparr>"
  by (simp add: set_temperature_def set_thermostat_def Let_def)

lemma set_temperature_accepted_reply:
  "fle (Fin 16) t \<Longrightarrow> fle t (Fin 30) \<Longrightarrow>
   \<exists>rest. fst (set_temperature repr now t s) = thermometer @ rest"
  by (simp add: set_temperature_def Let_def)

lemma thermometer_not_error: "\<not> error_shaped (thermometer @ rest)"
  by (simp add: error_shaped_def thermometer_def cross_mark_def)

text \<open>
  C3. \<open>set_temperature(45)\<close> is rejected with a text that contains "16" and "30", and the
  whole server state, the thermostat's target and current temperature included, is as
  before. \<open>set_temperature(25)\<close> on the initial state is accepted: the target becomes 25.0
  and the current temperature becomes the float 22.6, which is 22 moved by 20% of the
  distance to 25 and rounded to one decimal place.
\<close>

theorem set_temperature_examples:
  "contains ''16'' (fst (set_temperature repr now (Fin 45) s)) \<and>
   contains ''30'' (fst (set_temperature repr now (Fin 45) s)) \<and>
   error_shaped (fst (set_temperature repr now (Fin 45) s)) \<and>
   snd (set_temperature repr now (Fin 45) s) = s \<and>
   \<not> error_shaped (fst (set_temperature repr now (Fin 25) initial_server)) \<and>
   target_temperature (thermostat (DEVICES (snd (set_temperature repr now (Fin 25) initial_server))))
     = Fin 25 \<and>
   temperature (thermostat (DEVICES (snd (set_temperature repr now (Fin 25) initial_server))))
     = binary64 (22 + (25 - 22) * 2 / 10) \<and>
   binary64 (22 + (25 - 22) * 2 / 10) = Fin (3180667236830413 / 140737488355328)"
proof -
  have rej: "set_temperature repr now (Fin 45) s =
      (cross_mark @ '' Error: Temperature must be between 16'' @ degree_sign @ ''C and 30'' @
       degree_sign @ ''C'', s)"
    by (rule set_temperature_rejected) simp
  have c16: "contains ''16'' (fst (set_temperature repr now (Fin 45) s))"
    unfolding rej by (simp add: cross_mark_def degree_sign_def)
  have c30: "contains ''30'' (fst (set_temperature repr now (Fin 45) s))"
    unfolding rej by (simp add: cross_mark_def degree_sign_def)
  have shaped: "error_shaped (fst (set_temperature repr now (Fin 45) s))"
    unfolding rej by (simp add: error_shaped_def)
  have same: "snd (set_temperature repr now (Fin 45) s) = s"
    unfolding rej by simp
  obtain rest where "fst (set_temperature repr now (Fin 25) initial_server) = thermometer @ rest"
    using set_temperature_accepted_reply [of "Fin 25" repr now initial_server] by auto
  then have ok: "\<not> error_shaped (fst (set_temperature repr now (Fin 25) initial_server))"
    by (simp add: thermometer_not_error)
  have dev: "DEVICES (snd (set_temperature repr now (Fin 25) initial_server)) =
      (DEVICES initial_server)\<lparr>thermostat := (thermostat (DEVICES initial_server))
        \<lparr>target_temperature := Fin 25,
         temperature := Fin (3180667236830413 / 140737488355328)\<rparr>\<rparr>"
    by (simp add: set_temperature_accepted initial_server_def initial_devices_def fsub_def
        float_eval)
  have val: "binary64 (22 + (25 - 22) * 2 / 10) = Fin (3180667236830413 / 140737488355328)"
    using binary64_22_6 by simp
  show ?thesis
    using c16 c30 shaped same ok val by (simp add: dev)
qed

text \<open>
  C4. Logging any sequence of events into a log that holds at most ten entries leaves the
  last ten of all entries, in the order in which they were logged: the log never exceeds
  ten, and what is evicted is the oldest entry. In particular eleven insertions into the
  empty log leave the second to the eleventh, in order, and the first is gone (when no
  later entry equals it).
\<close>

theorem event_log_keeps_last_ten:
  "length (EVENT_LOG s) \<le> 10 \<Longrightarrow>
   length (EVENT_LOG (log_events es s)) \<le> 10 \<and>
   EVENT_LOG (log_events es s) =
     drop (length (EVENT_LOG s) + length es - 10)
       (EVENT_LOG s @ map (logged_entry (DEVICES s)) es) \<and>
   (EVENT_LOG s = [] \<and> length es = 11 \<longrightarrow>
      EVENT_LOG (log_events es s) = map (logged_entry (DEVICES s)) (tl es)) \<and>
   (EVENT_LOG s = [] \<and> length es = 11 \<and> distinct (map (logged_entry (DEVICES s)) es) \<longrightarrow>
      logged_entry (DEVICES s) (hd es) \<notin> set (EVENT_LOG (log_events es s)))"
proof -
  assume small: "length (EVENT_LOG s) \<le> 10"
  let ?f = "logged_entry (DEVICES s)"
  note win = log_events_window [OF small, of es]
  have bound: "length (EVENT_LOG (log_events es s)) \<le> 10"
    using small by (simp add: win)
  have eleven: "EVENT_LOG (log_events es s) = map ?f (tl es)"
    if "EVENT_LOG s = []" "length es = 11"
    using that by (simp add: win drop_Suc map_tl)
  have gone: "?f (hd es) \<notin> set (EVENT_LOG (log_events es s))"
    if "EVENT_LOG s = []" "length es = 11" "distinct (map ?f es)"
  proof -
    from that(2) obtain e rest where es: "es = e # rest" by (cases es) auto
    with that(3) have "?f e \<notin> set (map ?f rest)" by simp
    then show ?thesis using eleven [OF that(1,2)] es by simp
  qed
  show ?thesis
    using bound win eleven gone by blast
qed

theorem event_log_keeps_last_ten_witness:
  "length (EVENT_LOG initial_server) \<le> 10 \<and>
   EVENT_LOG (log_events eleven_events initial_server) =
     map (\<lambda>now. \<lparr>timestamp = now, device = ''Front Door Lock'', action = ''Door locked''\<rparr>)
       [''01'', ''02'', ''03'', ''04'', ''05'', ''06'', ''07'', ''08'', ''09'', ''10''] \<and>
   \<lparr>timestamp = ''00'', device = ''Front Door Lock'', action = ''Door locked''\<rparr>
     \<notin> set (EVENT_LOG (log_events eleven_events initial_server))"
  using event_log_keeps_last_ten [of initial_server eleven_events]
  by (simp add: eleven_events_def initial_server_def initial_devices_def device_name_def)


lemma control_light_rejected:
  "\<not> (0 \<le> v \<and> v \<le> 100) \<Longrightarrow>
   control_light now act (Some v) s =
   (cross_mark @ '' Error: Brightness must be between 0 and 100'', s)"
  by (auto simp: control_light_def)

lemma set_light_EVENT_LOG [simp]: "EVENT_LOG (set_light dev s) = EVENT_LOG s"
  by (simp add: set_light_def)

lemma activate_scene_log:
  "EVENT_LOG (snd (activate_scene now sc s)) =
   EVENT_LOG (log_event now ''scene_control''
     (''Scene '' @ quote @ scene_str sc @ quote @ '' activated'')
     (s\<lparr>DEVICES := fst (scene_effect sc (DEVICES s))\<rparr>))"
  by (simp add: activate_scene_def Let_def split: prod.splits)

text \<open>
  C5. A tool call whose argument is out of its domain (a brightness outside 0..100, a
  temperature outside 16..30) returns an error-shaped text and leaves the server state as
  it was: no device field changes, the action of the same call is not applied, and the
  event log gets no entry.
\<close>

theorem rejected_call_changes_nothing:
  "out_of_domain c \<Longrightarrow>
   error_shaped (fst (call_tool repr now c s)) \<and> snd (call_tool repr now c s) = s"
proof (cases c)
  case (ControlLight act b)
  assume "out_of_domain c"
  with ControlLight obtain v where "b = Some v" "\<not> (0 \<le> v \<and> v \<le> 100)"
    by (cases b) auto
  with ControlLight show ?thesis
    by (simp add: control_light_rejected error_shaped_def)
next
  case (SetTemperature t)
  assume "out_of_domain c"
  with SetTemperature have "\<not> (fle (Fin 16) t \<and> fle t (Fin 30))" by simp
  with SetTemperature show ?thesis
    by (simp add: set_temperature_rejected error_shaped_def)
next
  case (ControlDoorLock act)
  assume "out_of_domain c"
  with ControlDoorLock show ?thesis by simp
next
  case (ActivateScene sc)
  assume "out_of_domain c"
  with ActivateScene show ?thesis by simp
qed

theorem rejected_call_changes_nothing_witness:
  "out_of_domain (ControlLight On (Some 150)) \<and>
   error_shaped (fst (call_tool (\<lambda>x. []) ''2025-06-01 12:00:00'' (ControlLight On (Some 150))
     initial_server)) \<and>
   snd (call_tool (\<lambda>x. []) ''2025-06-01 12:00:00'' (ControlLight On (Some 150)) initial_server) =
     initial_server \<and>
   light_state (living_room_light (DEVICES (snd (call_tool (\<lambda>x. []) ''2025-06-01 12:00:00''
     (ControlLight On (Some 150)) initial_server)))) = ''off'' \<and>
   EVENT_LOG (snd (call_tool (\<lambda>x. []) ''2025-06-01 12:00:00'' (ControlLight On (Some 150))
     initial_server)) = []"
  using rejected_call_changes_nothing [of "ControlLight On (Some 150)" "\<lambda>x. []"
      "''2025-06-01 12:00:00''" initial_server]
  by (simp add: initial_server_def initial_devices_def)

text \<open>
  C8. Every accepted tool call puts exactly one entry, stamped with the time of the call,
  at the end of the event log (and the oldest entry leaves if that makes eleven). A scene
  activation, which writes to several devices, logs the single entry of the scene.
\<close>

theorem accepted_call_logs_once:
  "\<not> out_of_domain c \<Longrightarrow>
   (\<exists>e. timestamp e = now \<and>
        EVENT_LOG (snd (call_tool repr now c s)) =
        (if 10 < length (EVENT_LOG s @ [e]) then tl (EVENT_LOG s @ [e]) else EVENT_LOG s @ [e])) \<and>
   EVENT_LOG (snd (activate_scene now sc s)) =
   (if 10 < length (EVENT_LOG s @
          [\<lparr>timestamp = now, device = ''scene_control'',
            action = ''Scene '' @ quote @ scene_str sc @ quote @ '' activated''\<rparr>])
    then tl (EVENT_LOG s @
          [\<lparr>timestamp = now, device = ''scene_control'',
            action = ''Scene '' @ quote @ scene_str sc @ quote @ '' activated''\<rparr>])
    else EVENT_LOG s @
          [\<lparr>timestamp = now, device = ''scene_control'',
            action = ''Scene '' @ quote @ scene_str sc @ quote @ '' activated''\<rparr>])"
proof
  assume ok: "\<not> out_of_domain c"
  have one: "\<exists>e. timestamp e = now \<and>
      EVENT_LOG (log_event now device_id act s1) =
      (if 10 < length (EVENT_LOG s @ [e]) then tl (EVENT_LOG s @ [e]) else EVENT_LOG s @ [e])"
    if "EVENT_LOG s1 = EVENT_LOG s" for device_id act s1
    using that
    by (intro exI [of _ "\<lparr>timestamp = now, device = device_name (DEVICES s1) device_id,
          action = act\<rparr>"]) (simp add: log_event_EVENT_LOG Let_def)
  show "\<exists>e. timestamp e = now \<and>
      EVENT_LOG (snd (call_tool repr now c s)) =
      (if 10 < length (EVENT_LOG s @ [e]) then tl (EVENT_LOG s @ [e]) else EVENT_LOG s @ [e])"
  proof (cases c)
    case (ControlLight act b)
    show ?thesis
    proof (cases b)
      case None
      with ControlLight show ?thesis
        using one [of "set_light dev s" for dev]
        by (simp add: control_light_def control_light_apply_def Let_def)
    next
      case (Some v)
      with ControlLight ok have "0 \<le> v \<and> v \<le> 100" by simp
      with ControlLight Some show ?thesis
        using one [of "set_light dev (set_light dev' s)" for dev dev']
        by (simp add: control_light_def control_light_apply_def Let_def)
    qed
  next
    case (SetTemperature t)
    with ok have "fle (Fin 16) t \<and> fle t (Fin 30)" by simp
    with SetTemperature show ?thesis
      using one [of "set_thermostat dev s" for dev]
      by (simp add: set_temperature_def Let_def set_thermostat_def)
  next
    case (ControlDoorLock act)
    then show ?thesis
      using one [of "set_lock dev s" for dev]
      by (simp add: control_door_lock_def Let_def set_lock_def)
  next
    case (ActivateScene sc')
    show ?thesis
      unfolding ActivateScene call_tool.simps activate_scene_log by (rule one) simp
  qed
next
  show "EVENT_LOG (snd (activate_scene now sc s)) =
   (if 10 < length (EVENT_LOG s @
          [\<lparr>timestamp = now, device = ''scene_control'',
            action = ''Scene '' @ quote @ scene_str sc @ quote @ '' activated''\<rparr>])
    then tl (EVENT_LOG s @
          [\<lparr>timestamp = now, device = ''scene_control'',
            action = ''Scene '' @ quote @ scene_str sc @ quote @ '' activated''\<rparr>])
    else EVENT_LOG s @
          [\<lparr>timestamp = now, device = ''scene_control'',
            action = ''Scene '' @ quote @ scene_str sc @ quote @ '' activated''\<rparr>])"
    by (simp add: activate_scene_def Let_def log_event_EVENT_LOG device_name_def
        split: prod.splits)
qed

theorem accepted_call_logs_once_witness:
  "\<not> out_of_domain (ActivateScene Evening) \<and>
   EVENT_LOG (snd (call_tool (\<lambda>x. []) ''2025-06-01 12:00:00'' (ActivateScene Evening)
     initial_server)) =
   [\<lparr>timestamp = ''2025-06-01 12:00:00'', device = ''scene_control'',
     action = ''Scene '' @ quote @ ''evening'' @ quote @ '' activated''\<rparr>]"
  using accepted_call_logs_once [of "ActivateScene Evening" "''2025-06-01 12:00:00''"
      "\<lambda>x. []" initial_server Evening]
  by (simp add: initial_server_def)

text \<open>
  C9. \<open>control_light\<close> with brightness 0 leaves the light off with brightness 0, whatever
  the action is, "on" and "toggle" included.
\<close>

theorem brightness_zero_turns_light_off:
  "light_state (living_room_light (DEVICES (snd (control_light now act (Some 0) s)))) = ''off'' \<and>
   brightness (living_room_light (DEVICES (snd (control_light now act (Some 0) s)))) = 0 \<and>
   fst (control_light now act (Some 0) s) = check_mark @ '' Living Room Light is now off''"
  by (cases act) (simp_all add: control_light_def control_light_apply_def Let_def set_light_def)

text \<open>
  C10. The range 16..30 that \<open>set_temperature\<close> enforces on the target temperature is not
  kept by every mutator: after \<open>activate_scene("away")\<close>, from any state, the target is
  15.0, a value that \<open>set_temperature\<close> itself rejects, while the initial target, 22.0, is
  in the range.
\<close>

theorem away_scene_leaves_temperature_range:
  "target_temperature (thermostat (DEVICES (snd (activate_scene now Away s)))) = Fin 15 \<and>
   \<not> (fle (Fin 16) (Fin 15) \<and> fle (Fin 15) (Fin 30)) \<and>
   error_shaped (fst (set_temperature repr now'
     (target_temperature (thermostat (DEVICES (snd (activate_scene now Away initial_server)))))
     (snd (activate_scene now Away initial_server)))) \<and>
   fle (Fin 16) (target_temperature (thermostat (DEVICES initial_server))) \<and>
   fle (target_temperature (thermostat (DEVICES initial_server))) (Fin 30)"
proof -
  have away: "target_temperature (thermostat (DEVICES (snd (activate_scene now Away s')))) = Fin 15"
    for s'
    by (simp add: activate_scene_def Let_def binary64_15)
  have rej: "error_shaped (fst (set_temperature repr now' (Fin 15) s'))" for s'
    by (simp add: set_temperature_rejected error_shaped_def)
  show ?thesis
    by (simp add: away rej initial_server_def initial_devices_def binary64_22)
qed


section \<open>Properties of the client\<close>

subsection \<open>What each step leaves alone\<close>

lemma create_agent_world [simp]:
  "live_processes (snd (create_agent e servers s)) = live_processes s"
  "open_sessions (snd (create_agent e servers s)) = open_sessions s"
  "next_handle (snd (create_agent e servers s)) = next_handle s"
  "server_process (snd (create_agent e servers s)) = server_process s"
  "mcp_server (snd (create_agent e servers s)) = mcp_server s"
  by (simp_all add: create_agent_def Let_def split: option.splits)

lemma create_agent_binds:
  "fst (create_agent e servers s) = None \<Longrightarrow>
   map_option mcp_servers (agent (snd (create_agent e servers s))) =
   Some (case servers of Some l \<Rightarrow> l | None \<Rightarrow> [])"
  by (auto simp: create_agent_def Let_def split: option.splits if_splits)

lemma create_agent_calm:
  "client_raises e = None \<Longrightarrow> agent_raises e = None \<Longrightarrow> fst (create_agent e servers s) = None"
  by (simp add: create_agent_def Let_def)

lemma snd_outcome:
  "snd (case r of (None, s') \<Rightarrow> (a, s') | (Some msg, s') \<Rightarrow> (b msg, s')) = snd r"
  by (cases r; cases "fst r") auto

lemma start_state:
  "snd (start_mcp_server e s) =
   (if \<not> file_exists e \<or> popen_raises e \<noteq> None then s
    else if exits_during_grace e \<noteq> None
    then s\<lparr>server_process := Some (next_handle s),
           live_processes := removeAll (next_handle s) (live_processes s @ [next_handle s]),
           next_handle := Suc (next_handle s)\<rparr>
    else if aenter_raises e \<noteq> None
    then s\<lparr>server_process := Some (next_handle s),
           live_processes := live_processes s @ [next_handle s],
           mcp_server := Some (Suc (next_handle s)),
           next_handle := Suc (Suc (next_handle s))\<rparr>
    else snd (create_agent e (Some [Suc (next_handle s)])
           (s\<lparr>server_process := Some (next_handle s),
              live_processes := live_processes s @ [next_handle s],
              mcp_server := Some (Suc (next_handle s)),
              next_handle := Suc (Suc (next_handle s)),
              open_sessions := open_sessions s @ [Suc (next_handle s)]\<rparr>)))"
  by (auto simp: start_mcp_server_def Let_def snd_outcome split: option.splits)

lemma stop_state:
  "snd (stop_mcp_server e s) =
   (case close_session e s of
      Inl (msg, s1) \<Rightarrow> s1
    | Inr s1 \<Rightarrow>
        (case stop_process e s1 of
           Inl (msg, s2) \<Rightarrow> s2
         | Inr s2 \<Rightarrow> snd (create_agent e None (s2\<lparr>server_process := None\<rparr>))))"
  by (simp add: stop_mcp_server_def snd_outcome split: sum.splits prod.splits)


lemma close_session_world:
  "close_session e s = Inl (msg, s1) \<Longrightarrow> s1 = s"
  "close_session e s = Inr s1 \<Longrightarrow>
     live_processes s1 = live_processes s \<and> next_handle s1 = next_handle s \<and>
     server_process s1 = server_process s"
  by (auto simp: close_session_def split: option.splits)

lemma stop_process_world:
  "stop_process e s = Inl (msg, s1) \<Longrightarrow> s1 = s"
  "stop_process e s = Inr s1 \<Longrightarrow>
     next_handle s1 = next_handle s \<and> mcp_server s1 = mcp_server s \<and>
     (live_processes s1 = live_processes s \<or>
      (\<exists>p. server_process s = Some p \<and> live_processes s1 = removeAll p (live_processes s)))"
  by (auto simp: stop_process_def split: option.splits if_splits)

lemma start_live_length:
  "length (live_processes (snd (start_mcp_server e s))) \<le> Suc (length (live_processes s))"
  by (simp add: start_state le_SucI)

lemma stop_live_length:
  "length (live_processes (snd (stop_mcp_server e s))) \<le> length (live_processes s)"
proof (cases "close_session e s")
  case (Inl a)
  then show ?thesis
    by (cases a) (auto simp: stop_state dest: close_session_world(1))
next
  case (Inr s1)
  note cs = close_session_world(2) [OF Inr]
  show ?thesis
  proof (cases "stop_process e s1")
    case (Inl a)
    with Inr cs show ?thesis
      by (cases a) (auto simp: stop_state dest: stop_process_world(1))
  next
    case inr: (Inr s2)
    from stop_process_world(2) [OF inr] cs
    have "length (live_processes s2) \<le> length (live_processes s)"
      by (auto intro: le_trans [OF length_removeAll_less_eq])
    with Inr inr show ?thesis by (simp add: stop_state)
  qed
qed

lemma lifecycle_live_length:
  "length (live_processes (lifecycle ops s)) \<le>
   length (live_processes s) + length (filter is_start ops)"
proof (induction ops s rule: lifecycle.induct)
  case (1 s)
  then show ?case by simp
next
  case (2 e ops s)
  then show ?case using start_live_length [of e s] by simp
next
  case (3 e ops s)
  then show ?case using stop_live_length [of e s] by simp
qed

subsection \<open>Handles stay fresh\<close>

lemma handles_fresh_initial: "handles_fresh initial_client"
  by (simp add: handles_fresh_def initial_client_def)

lemma handles_fresh_start: "handles_fresh s \<Longrightarrow> handles_fresh (snd (start_mcp_server e s))"
  by (auto simp: handles_fresh_def start_state list_all_iff)

lemma handles_fresh_stop: "handles_fresh s \<Longrightarrow> handles_fresh (snd (stop_mcp_server e s))"
proof (cases "close_session e s")
  case (Inl a)
  assume "handles_fresh s"
  with Inl show ?thesis
    by (cases a) (auto simp: stop_state dest: close_session_world(1))
next
  case (Inr s1)
  assume fresh: "handles_fresh s"
  note cs = close_session_world(2) [OF Inr]
  show ?thesis
  proof (cases "stop_process e s1")
    case (Inl a)
    with Inr cs fresh show ?thesis
      by (cases a) (auto simp: stop_state handles_fresh_def dest: stop_process_world(1))
  next
    case inr: (Inr s2)
    from stop_process_world(2) [OF inr] cs fresh
    have "list_all (\<lambda>p. p < next_handle s2) (live_processes s2)"
      by (auto simp: handles_fresh_def list_all_iff)
    with Inr inr show ?thesis by (simp add: stop_state handles_fresh_def)
  qed
qed

lemma handles_fresh_lifecycle: "handles_fresh s \<Longrightarrow> handles_fresh (lifecycle ops s)"
  by (induction ops s rule: lifecycle.induct) (simp_all add: handles_fresh_start handles_fresh_stop)

lemma start_keeps_live:
  "handles_fresh s \<Longrightarrow>
   set (live_processes s) \<subseteq> set (live_processes (snd (start_mcp_server e s)))"
  by (auto simp: handles_fresh_def start_state list_all_iff)

lemma start_succeeds_state:
  "start_succeeds e \<Longrightarrow>
   live_processes (snd (start_mcp_server e s)) = live_processes s @ [next_handle s] \<and>
   open_sessions (snd (start_mcp_server e s)) = open_sessions s @ [Suc (next_handle s)] \<and>
   server_process (snd (start_mcp_server e s)) = Some (next_handle s) \<and>
   mcp_server (snd (start_mcp_server e s)) = Some (Suc (next_handle s)) \<and>
   next_handle (snd (start_mcp_server e s)) = Suc (Suc (next_handle s))"
  by (simp add: start_succeeds_def start_state)

subsection \<open>The server lifecycle\<close>

lemma close_session_sessions:
  "close_session e s = Inr s1 \<Longrightarrow> length (open_sessions s1) \<le> length (open_sessions s)"
  by (auto simp: close_session_def length_removeAll_less_eq split: option.splits)

lemma stop_process_sessions:
  "stop_process e s = Inr s1 \<Longrightarrow> open_sessions s1 = open_sessions s"
  by (auto simp: stop_process_def split: option.splits if_splits)

lemma start_sessions_length:
  "length (open_sessions (snd (start_mcp_server e s))) \<le> Suc (length (open_sessions s))"
  by (simp add: start_state)

lemma stop_sessions_length:
  "length (open_sessions (snd (stop_mcp_server e s))) \<le> length (open_sessions s)"
proof (cases "close_session e s")
  case (Inl a)
  then show ?thesis
    by (cases a) (auto simp: stop_state dest: close_session_world(1))
next
  case (Inr s1)
  note cs = close_session_sessions [OF Inr]
  show ?thesis
  proof (cases "stop_process e s1")
    case (Inl a)
    with Inr cs show ?thesis
      by (cases a) (auto simp: stop_state dest: stop_process_world(1))
  next
    case inr: (Inr s2)
    from stop_process_sessions [OF inr] cs
    have "length (open_sessions s2) \<le> length (open_sessions s)" by simp
    with Inr inr show ?thesis by (simp add: stop_state)
  qed
qed

lemma start_children_length:
  "length (live_children (snd (start_mcp_server e s))) \<le> length (live_children s) + 2"
  using start_live_length [of e s] start_sessions_length [of e s]
  by (simp add: live_children_def)

lemma stop_children_length:
  "length (live_children (snd (stop_mcp_server e s))) \<le> length (live_children s)"
  using stop_live_length [of e s] stop_sessions_length [of e s]
  by (simp add: live_children_def)

lemma lifecycle_children_length:
  "length (live_children (lifecycle ops s)) \<le>
   length (live_children s) + 2 * length (filter is_start ops)"
proof (induction ops s rule: lifecycle.induct)
  case (1 s)
  then show ?case by simp
next
  case (2 e ops s)
  then show ?case using start_children_length [of e s] by simp
next
  case (3 e ops s)
  then show ?case using stop_children_length [of e s] by simp
qed

lemma start_keeps_children:
  "handles_fresh s \<Longrightarrow>
   set (live_children s) \<subseteq> set (live_children (snd (start_mcp_server e s)))"
  by (auto simp: live_children_def handles_fresh_def start_state list_all_iff)

text \<open>
  C1, as the code has it. A start that succeeds launches two server children, one with
  \<open>subprocess.Popen\<close> and one through the \<open>MCPServerStdio\<close> session, and moves the two
  handles to them; a start never stops a child that is live: in every state reached by
  start and stop operations, the children live before \<open>start_mcp_server\<close> are live after
  it. So the number of live children after a sequence of operations is bounded by twice
  the number of starts in it, not by one, and two starts in a row that both succeed leave
  exactly four live children, the handles tracking the two of the second start.
\<close>

theorem start_keeps_prior_instance:
  "length (live_children (lifecycle ops initial_client)) \<le> 2 * length (filter is_start ops) \<and>
   set (live_children (lifecycle ops initial_client)) \<subseteq>
     set (live_children (snd (start_mcp_server e (lifecycle ops initial_client)))) \<and>
   (start_succeeds e \<longrightarrow>
      live_processes (snd (start_mcp_server e s)) = live_processes s @ [next_handle s] \<and>
      open_sessions (snd (start_mcp_server e s)) = open_sessions s @ [Suc (next_handle s)] \<and>
      server_process (snd (start_mcp_server e s)) = Some (next_handle s) \<and>
      mcp_server (snd (start_mcp_server e s)) = Some (Suc (next_handle s))) \<and>
   (start_succeeds e1 \<and> start_succeeds e2 \<longrightarrow>
      live_children (lifecycle [Start e1, Start e2] initial_client) = [0, 2, 1, 3] \<and>
      server_process (lifecycle [Start e1, Start e2] initial_client) = Some 2 \<and>
      mcp_server (lifecycle [Start e1, Start e2] initial_client) = Some 3)"
proof -
  have bound: "length (live_children (lifecycle ops initial_client)) \<le>
      2 * length (filter is_start ops)"
    using lifecycle_children_length [of ops initial_client]
    by (simp add: initial_client_def live_children_def)
  have kept: "set (live_children (lifecycle ops initial_client)) \<subseteq>
      set (live_children (snd (start_mcp_server e (lifecycle ops initial_client))))"
    by (rule start_keeps_children) (rule handles_fresh_lifecycle [OF handles_fresh_initial])
  have twice: "live_children (lifecycle [Start e1, Start e2] initial_client) = [0, 2, 1, 3] \<and>
      server_process (lifecycle [Start e1, Start e2] initial_client) = Some 2 \<and>
      mcp_server (lifecycle [Start e1, Start e2] initial_client) = Some 3"
    if "start_succeeds e1" "start_succeeds e2"
    using start_succeeds_state [OF that(1), of initial_client]
      start_succeeds_state [OF that(2), of "snd (start_mcp_server e1 initial_client)"]
    by (simp add: initial_client_def live_children_def numeral_eq_Suc)
  show ?thesis
    using bound kept twice start_succeeds_state [of e s] by blast
qed

theorem start_keeps_prior_instance_witness:
  "start_succeeds calm \<and>
   live_children (lifecycle [Start calm, Stop calm, Start calm] initial_client) = [2, 3] \<and>
   live_children (lifecycle [Start calm, Stop calm, Start calm, Start calm] initial_client) =
     [2, 4, 3, 5] \<and>
   server_process (lifecycle [Start calm, Stop calm, Start calm, Start calm] initial_client) =
     Some 4 \<and>
   mcp_server (lifecycle [Start calm, Stop calm, Start calm, Start calm] initial_client) =
     Some 5 \<and>
   live_children (lifecycle [Start calm, Start calm] initial_client) = [0, 2, 1, 3]"
proof -
  have calm: "start_succeeds calm"
    by (simp add: start_succeeds_def calm_def)
  have three: "lifecycle [Start calm, Stop calm, Start calm] initial_client =
      \<lparr>agent = Some \<lparr>agent_name = ''Home Assistant'', instructions = instructions_with_tools,
                     mcp_servers = [3]\<rparr>,
       mcp_server = Some 3, server_process = Some 2, current_thread_id = None,
       previous_result = None, aoai_client = True, live_processes = [2], open_sessions = [3],
       next_handle = 4\<rparr>"
    by (simp add: start_mcp_server_def stop_mcp_server_def close_session_def stop_process_def
        create_agent_def calm_def initial_client_def Let_def numeral_eq_Suc)
  have four: "lifecycle [Start calm, Stop calm, Start calm, Start calm] initial_client =
      snd (start_mcp_server calm (lifecycle [Start calm, Stop calm, Start calm] initial_client))"
    by simp
  show ?thesis
    using start_keeps_prior_instance [of "[Start calm, Stop calm, Start calm]" calm
        "lifecycle [Start calm, Stop calm, Start calm] initial_client" calm calm] calm
    unfolding four three by (simp add: live_children_def numeral_eq_Suc)
qed

text \<open>The claim as the specification states it fails: one start already leaves two live
  children, two starts in a row leave four, and a stop after them ends only the two that
  the handles track.\<close>

theorem two_starts_leave_four_children:
  "live_children (lifecycle [Start calm] idle_client) = [0, 1] \<and>
   live_children (lifecycle [Start calm, Start calm] idle_client) = [0, 2, 1, 3] \<and>
   server_process (lifecycle [Start calm, Start calm] idle_client) = Some 2 \<and>
   mcp_server (lifecycle [Start calm, Start calm] idle_client) = Some 3 \<and>
   \<not> length (live_children (lifecycle [Start calm, Start calm] idle_client)) \<le> 1 \<and>
   live_children (lifecycle [Start calm, Start calm, Stop calm] idle_client) = [0, 1]"
  by (simp add: idle_client_def initialise_llm_def start_mcp_server_def stop_mcp_server_def
      close_session_def stop_process_def create_agent_def calm_def initial_client_def
      live_children_def Let_def numeral_eq_Suc)


lemma close_session_ok:
  "aexit_raises e = None \<Longrightarrow>
   close_session e s =
   Inr (case mcp_server s of
          None \<Rightarrow> s
        | Some m \<Rightarrow> s\<lparr>mcp_server := None, open_sessions := removeAll m (open_sessions s)\<rparr>)"
  by (simp add: close_session_def split: option.splits)

lemma stop_process_ok:
  "signal_raises e = None \<Longrightarrow> kill_raises e = None \<Longrightarrow>
   \<exists>s1. stop_process e s = Inr s1 \<and> mcp_server s1 = mcp_server s"
  by (simp add: stop_process_def split: option.splits)

text \<open>
  C2, as the code has it. When no call made by \<open>stop_mcp_server\<close> raises, which includes
  the case that the wait for the child times out and the child is killed, the two handles
  are cleared afterwards and the agent is bound with an empty list of servers.
\<close>

theorem stop_clears_handle_when_nothing_raises:
  "stop_raises_nothing e \<Longrightarrow>
   handle_cleared (snd (stop_mcp_server e s)) \<and>
   fst (stop_mcp_server e s) =
     stop_sign @ '' MCP Server stopped. AI Agent now works without tools (general assistance only).''"
proof -
  assume calm: "stop_raises_nothing e"
  then have raises: "aexit_raises e = None" "signal_raises e = None" "kill_raises e = None"
    "client_raises e = None" "agent_raises e = None"
    by (simp_all add: stop_raises_nothing_def)
  define s1 where "s1 = (case mcp_server s of
      None \<Rightarrow> s
    | Some m \<Rightarrow> s\<lparr>mcp_server := None, open_sessions := removeAll m (open_sessions s)\<rparr>)"
  have cs: "close_session e s = Inr s1"
    unfolding s1_def by (rule close_session_ok [OF raises(1)])
  have m1: "mcp_server s1 = None"
    by (simp add: s1_def split: option.splits)
  obtain s2 where sp: "stop_process e s1 = Inr s2" and m2: "mcp_server s2 = None"
    using stop_process_ok [OF raises(2,3), of s1] m1 by auto
  let ?r = "create_agent e None (s2\<lparr>server_process := None\<rparr>)"
  have ok: "fst ?r = None"
    by (rule create_agent_calm [OF raises(4,5)])
  then obtain s3 where r: "?r = (None, s3)"
    by (cases ?r) auto
  have s3: "s3 = snd ?r" by (simp add: r)
  have "handle_cleared s3"
    using create_agent_binds [OF ok] m2 unfolding s3 by (simp add: handle_cleared_def)
  then show ?thesis
    by (simp add: stop_mcp_server_def cs sp r)
qed

theorem stop_clears_handle_when_nothing_raises_witness:
  "stop_raises_nothing (calm\<lparr>wait_times_out := True\<rparr>) \<and>
   handle_cleared (snd (stop_mcp_server (calm\<lparr>wait_times_out := True\<rparr>) started_client)) \<and>
   live_processes started_client = [0] \<and>
   live_processes (snd (stop_mcp_server (calm\<lparr>wait_times_out := True\<rparr>) started_client)) = []"
proof -
  have started: "started_client =
      \<lparr>agent = Some \<lparr>agent_name = ''Home Assistant'', instructions = instructions_with_tools,
                     mcp_servers = [1]\<rparr>,
       mcp_server = Some 1, server_process = Some 0, current_thread_id = None,
       previous_result = None, aoai_client = True, live_processes = [0], open_sessions = [1],
       next_handle = 2\<rparr>"
    by (simp add: started_client_def idle_client_def initialise_llm_def start_mcp_server_def
        create_agent_def calm_def initial_client_def Let_def numeral_eq_Suc)
  have quiet: "stop_raises_nothing (calm\<lparr>wait_times_out := True\<rparr>)"
    by (simp add: stop_raises_nothing_def calm_def)
  have live: "live_processes (snd (stop_mcp_server (calm\<lparr>wait_times_out := True\<rparr>) started_client)) = []"
    unfolding started
    by (simp add: stop_mcp_server_def close_session_def stop_process_def create_agent_def
        calm_def Let_def)
  have "handle_cleared (snd (stop_mcp_server (calm\<lparr>wait_times_out := True\<rparr>) started_client))"
    using stop_clears_handle_when_nothing_raises
      [of "calm\<lparr>wait_times_out := True\<rparr>" started_client] quiet
    by blast
  then show ?thesis
    using quiet live by (simp add: started)
qed

text \<open>The claim as the specification states it fails: when leaving the server context
  raises, \<open>stop_mcp_server\<close> reports the error and returns with both handles still set, the
  agent still bound to the server and the child still running.\<close>

theorem failed_stop_keeps_handle:
  "\<not> handle_cleared (snd (stop_mcp_server broken_exit started_client)) \<and>
   mcp_server (snd (stop_mcp_server broken_exit started_client)) = Some 1 \<and>
   server_process (snd (stop_mcp_server broken_exit started_client)) = Some 0 \<and>
   map_option mcp_servers (agent (snd (stop_mcp_server broken_exit started_client))) = Some [1] \<and>
   live_processes (snd (stop_mcp_server broken_exit started_client)) = [0] \<and>
   fst (stop_mcp_server broken_exit started_client) =
     cross_mark @ '' Error stopping server: connection closed''"
  by (simp add: started_client_def idle_client_def initialise_llm_def start_mcp_server_def
      stop_mcp_server_def close_session_def stop_error_def handle_cleared_def
      create_agent_def calm_def broken_exit_def initial_client_def Let_def numeral_eq_Suc)

subsection \<open>Conversation turns\<close>

text \<open>
  C6. After \<open>reset_conversation\<close> the continuation state is empty, and the next message is
  handed to the runner as the bare text of that message: the input of that turn is
  \<open>Text user_input\<close>, with nothing of an earlier turn in it.
\<close>

theorem reset_empties_continuation:
  "agent s = Some a \<Longrightarrow>
   previous_result (snd (reset_conversation id1 s)) = None \<and>
   turn_input (snd (reset_conversation id1 s)) user_input = Text user_input \<and>
   process_user_input run id2 user_input history (snd (reset_conversation id1 s)) =
     (case run a (Text user_input) of
        Inl msg \<Rightarrow> (Inl msg, s\<lparr>previous_result := None, current_thread_id := Some id2\<rparr>)
      | Inr result \<Rightarrow>
          (Inr (history @ [user_message user_input, assistant_message (final_output result)], []),
           s\<lparr>previous_result := Some result, current_thread_id := Some id2\<rparr>))"
  by (simp add: reset_conversation_def turn_input_def process_user_input_def Let_def
      split: sum.splits)


theorem reset_empties_continuation_witness:
  "agent talked_client =
     Some \<lparr>agent_name = ''Home Assistant'', instructions = instructions_without_tools,
           mcp_servers = []\<rparr> \<and>
   turn_input talked_client ''hello'' =
     Items [[(''role'', ''user''), (''content'', ''unlock the door'')],
            [(''role'', ''assistant''), (''content'', ''ok'')],
            [(''role'', ''user''), (''content'', ''hello'')]] \<and>
   turn_input (snd (reset_conversation ''trace-2'' talked_client)) ''hello'' = Text ''hello'' \<and>
   map_option to_input_list (previous_result (snd (process_user_input echo_runner ''trace-3''
     ''hello'' [] (snd (reset_conversation ''trace-2'' talked_client))))) =
     Some [[(''role'', ''user''), (''content'', ''hello'')],
           [(''role'', ''assistant''), (''content'', ''ok'')]]"
proof -
  have talked: "talked_client =
      \<lparr>agent = Some \<lparr>agent_name = ''Home Assistant'', instructions = instructions_without_tools,
                     mcp_servers = []\<rparr>,
       mcp_server = None, server_process = None, current_thread_id = Some ''trace-1'',
       previous_result = Some
         \<lparr>to_input_list = [[(''role'', ''user''), (''content'', ''unlock the door'')],
                           [(''role'', ''assistant''), (''content'', ''ok'')]],
          final_output = ''ok''\<rparr>,
       aoai_client = True, live_processes = [], open_sessions = [], next_handle = 0\<rparr>"
    by (simp add: talked_client_def idle_client_def initialise_llm_def create_agent_def calm_def
        initial_client_def process_user_input_def turn_input_def echo_runner_def Let_def)
  have bound: "agent talked_client =
      Some \<lparr>agent_name = ''Home Assistant'', instructions = instructions_without_tools,
            mcp_servers = []\<rparr>"
    by (simp add: talked)
  have before: "turn_input talked_client ''hello'' =
      Items [[(''role'', ''user''), (''content'', ''unlock the door'')],
             [(''role'', ''assistant''), (''content'', ''ok'')],
             [(''role'', ''user''), (''content'', ''hello'')]]"
    by (simp add: talked turn_input_def)
  show ?thesis
    using reset_empties_continuation [OF bound, of "''trace-2''" "''hello''" echo_runner
        "''trace-3''" "[]"] bound before
    by (simp add: echo_runner_def)
qed

text \<open>
  C7. A turn requested while no agent is bound returns the fixed message after the user's
  text, and the client state is exactly as before: the continuation state and the session
  identifier are untouched.
\<close>

theorem unbound_agent_short_circuits:
  "agent s = None \<Longrightarrow>
   process_user_input run new_id user_input history s =
     (Inr (history @
           [user_message user_input,
            assistant_message ''LLM not initialised. Please restart the application.''], []),
      s) \<and>
   previous_result (snd (process_user_input run new_id user_input history s)) =
     previous_result s \<and>
   current_thread_id (snd (process_user_input run new_id user_input history s)) =
     current_thread_id s"
  by (simp add: process_user_input_def)

theorem unbound_agent_short_circuits_witness:
  "agent initial_client = None \<and>
   process_user_input echo_runner ''trace-1'' ''hello'' [] initial_client =
     (Inr ([\<lparr>role = ''user'', content = ''hello'', avatar = person_sign\<rparr>,
            \<lparr>role = ''assistant'',
             content = ''LLM not initialised. Please restart the application.'',
             avatar = robot_sign\<rparr>], []),
      initial_client) \<and>
   previous_result (snd (process_user_input echo_runner ''trace-1'' ''hello'' [] initial_client)) =
     None \<and>
   current_thread_id (snd (process_user_input echo_runner ''trace-1'' ''hello'' [] initial_client)) =
     None"
  using unbound_agent_short_circuits [of initial_client echo_runner "''trace-1''" "''hello''" "[]"]
  by (simp add: initial_client_def user_message_def assistant_message_def)

end
